theory Spec2Isabelle
  imports Main "HOL-Library.Word"
begin

unbundle bit_operations_syntax

section \<open>Machine types of main.cpp\<close>

text \<open>
  The driver is built for an Mbed board (the bus object is constructed on the pins
  \<^verbatim>\<open>p9\<close>, \<^verbatim>\<open>p10\<close>), that is for the ARM EABI: plain \<^verbatim>\<open>char\<close> is an unsigned
  8-bit integer and \<^verbatim>\<open>int\<close> has 32 bits. A \<^verbatim>\<open>char\<close> is an \<open>8 word\<close>. Every
  operator of the source works on operands promoted to \<^verbatim>\<open>int\<close>: the promotion is
  \<open>uint\<close>, the operators are those of \<open>int\<close>, and an assignment to a \<^verbatim>\<open>char\<close> or
  a \<^verbatim>\<open>uint16_t\<close> truncates with \<open>word_of_int\<close>. The promoted values of this program
  are never negative and never exceed \<open>255 * 2 ^ 8 + 255\<close>, so the 32-bit \<^verbatim>\<open>int\<close>
  never overflows and \<^verbatim>\<open>>>\<close> is \<open>drop_bit\<close>.
\<close>

type_synonym char8 = "8 word"
type_synonym uint16_t = "16 word"

text \<open>The C operator \<^verbatim>\<open>!\<close>: 1 for a zero operand, 0 for any other.\<close>

definition logical_not :: "int \<Rightarrow> int" where
  "logical_not x = (if x = 0 then 1 else 0)"

section \<open>Air sensor constants\<close>

definition AIR_ADDR :: int where
  "AIR_ADDR = push_bit 1 0x5A"

definition AIR_STATUS_REG :: char8 where
  "AIR_STATUS_REG = 0x00"

definition AIR_STATUS_ERROR_MASK :: char8 where
  "AIR_STATUS_ERROR_MASK = 0x01"

definition AIR_STATUS_DATA_READY_MASK :: char8 where
  "AIR_STATUS_DATA_READY_MASK = 0x08"

definition AIR_STATUS_APP_VALID_MASK :: char8 where
  "AIR_STATUS_APP_VALID_MASK = 0x16"

definition AIR_STATUS_FW_MODE_MASK :: char8 where
  "AIR_STATUS_FW_MODE_MASK = 0x80"

definition AIR_STATUS_FW_MODE_BOOT :: char8 where
  "AIR_STATUS_FW_MODE_BOOT = 0"

definition AIR_STATUS_FW_MODE_APP :: char8 where
  "AIR_STATUS_FW_MODE_APP = 1"

definition AIR_MODE_REG :: char8 where
  "AIR_MODE_REG = 0x01"

definition AIR_MODE_DRIVE_MODE_MASK :: char8 where
  "AIR_MODE_DRIVE_MODE_MASK = 0x70"

definition AIR_MODE_IDLE :: char8 where
  "AIR_MODE_IDLE = 0x00"

definition AIR_MODE_1_SECOND :: char8 where
  "AIR_MODE_1_SECOND = 0x01"

definition AIR_ERROR_ID_REG :: char8 where
  "AIR_ERROR_ID_REG = 0xE0"

definition AIR_ERROR_ID_BAD_WRITE :: char8 where
  "AIR_ERROR_ID_BAD_WRITE = 0x00"

definition AIR_ERROR_ID_BAD_READ :: char8 where
  "AIR_ERROR_ID_BAD_READ = 0x01"

definition AIR_ERROR_ID_BAD_MODE :: char8 where
  "AIR_ERROR_ID_BAD_MODE = 0x02"

definition AIR_ERROR_ID_MAX_RESISTANCE :: char8 where
  "AIR_ERROR_ID_MAX_RESISTANCE = 0x03"

definition AIR_ERROR_ID_HEATER_FAULT :: char8 where
  "AIR_ERROR_ID_HEATER_FAULT = 0x04"

definition AIR_ERROR_ID_HEATER_SUPPLY :: char8 where
  "AIR_ERROR_ID_HEATER_SUPPLY = 0x05"

definition AIR_ALG_RESULT_DATA_REG :: char8 where
  "AIR_ALG_RESULT_DATA_REG = 0x02"

definition AIR_BOOT_APP_START_REG :: char8 where
  "AIR_BOOT_APP_START_REG = 0xF4"

section \<open>The register fields\<close>

text \<open>The struct \<^verbatim>\<open>air_status_t\<close>; every field is a \<^verbatim>\<open>char\<close>.\<close>

record air_status_t =
  fw_mode :: char8
  app_valid :: char8
  error :: char8
  data_ready :: char8
  raw :: char8

text \<open>
  The five assignments at the end of \<^verbatim>\<open>air_read_status\<close>, which unpack the byte read
  from the status register.
\<close>

definition unpack_status :: "char8 \<Rightarrow> air_status_t" where
  "unpack_status raw_status =
     \<lparr> fw_mode = word_of_int (drop_bit 7 (uint raw_status AND uint AIR_STATUS_FW_MODE_MASK)),
       app_valid = word_of_int (drop_bit 4 (uint raw_status AND uint AIR_STATUS_APP_VALID_MASK)),
       error = word_of_int (uint raw_status AND uint AIR_STATUS_ERROR_MASK),
       data_ready =
         word_of_int (drop_bit 3 (uint raw_status AND uint AIR_STATUS_DATA_READY_MASK)),
       raw = raw_status \<rparr>"

text \<open>
  The bit packing of \<^verbatim>\<open>air_write_mode\<close>: from the byte read from the mode register
  and the requested drive mode to the byte \<^verbatim>\<open>write_measurement_mode\<close> that is sent.
  The mask is negated with the logical \<^verbatim>\<open>!\<close>, as the source has it.
\<close>

definition write_measurement_mode :: "char8 \<Rightarrow> char8 \<Rightarrow> char8" where
  "write_measurement_mode measurement_mode drive_mode =
     (let write_drive_mode = (word_of_int (push_bit 4 (uint drive_mode)) :: char8);
          measurement_mode' =
            (word_of_int (uint measurement_mode AND logical_not (uint AIR_MODE_DRIVE_MODE_MASK))
              :: char8)
      in word_of_int (uint write_drive_mode OR uint measurement_mode'))"

text \<open>The struct \<^verbatim>\<open>air_alg_result_t\<close>.\<close>

record air_alg_result_t =
  eco2 :: uint16_t
  tvoc :: uint16_t

text \<open>
  The two assignments at the end of \<^verbatim>\<open>air_read_alg_result\<close>, on the four bytes of
  \<^verbatim>\<open>buf\<close>.
\<close>

definition unpack_alg_result :: "char8 \<Rightarrow> char8 \<Rightarrow> char8 \<Rightarrow> char8 \<Rightarrow> air_alg_result_t" where
  "unpack_alg_result buf0 buf1 buf2 buf3 =
     \<lparr> eco2 = word_of_int (push_bit 8 (uint buf0) OR uint buf1),
       tvoc = word_of_int (push_bit 8 (uint buf2) OR uint buf3) \<rparr>"

section \<open>The bus\<close>

text \<open>
  The object \<^verbatim>\<open>i2c\<close> belongs to the Mbed library: \<^verbatim>\<open>i2c.write(address, data, length)\<close>
  and \<^verbatim>\<open>i2c.read(address, data, length)\<close> each perform one transaction and return 0
  when the device acknowledged it, another value otherwise. The driver is verified against
  every device: \<open>device\<close> gives, for the \<open>n\<close>-th transaction of the run, the value the
  call returns and the bytes the device would deliver if that transaction is a read (byte
  \<open>i\<close> of the answer at index \<open>i\<close>). Since the program is sequential, any behaviour of
  a real device is one such function. \<open>trace\<close> records the transactions in the order
  they happened, each with what was sent or received and with the value returned.
\<close>

datatype event =
    Wr int "char8 list" int
  | Rd int "char8 list" int

record i2c =
  device :: "nat \<Rightarrow> int \<times> (nat \<Rightarrow> char8)"
  trace :: "event list"

definition i2c_write :: "int \<Rightarrow> char8 list \<Rightarrow> i2c \<Rightarrow> int \<times> i2c" where
  "i2c_write address data bus =
     (let rc = fst (device bus (length (trace bus)))
      in (rc, bus\<lparr>trace := trace bus @ [Wr address data rc]\<rparr>))"

definition i2c_read :: "int \<Rightarrow> nat \<Rightarrow> i2c \<Rightarrow> (int \<times> char8 list) \<times> i2c" where
  "i2c_read address len bus =
     (let rc = fst (device bus (length (trace bus)));
          data = map (snd (device bus (length (trace bus)))) [0..<len]
      in ((rc, data), bus\<lparr>trace := trace bus @ [Rd address data rc]\<rparr>))"

section \<open>Fatal errors\<close>

text \<open>
  \<^verbatim>\<open>die(fmt, ...)\<close> prints its arguments with \<^verbatim>\<open>vprintf\<close>, prints a line end and
  calls \<^verbatim>\<open>exit(1)\<close>: the program stops there. A function that can reach \<^verbatim>\<open>die\<close>
  returns a sum, \<open>Inl (Die fmt args)\<close> holding the format string and the arguments of
  the call, together with the bus as it is at that moment.
\<close>

datatype vararg = Arg_str string | Arg_int int

datatype failure = Die string "vararg list"

type_synonym 'a outcome = "(failure + 'a) \<times> i2c"

section \<open>The operations on the sensor\<close>

definition air_read_status :: "i2c \<Rightarrow> air_status_t outcome" where
  "air_read_status bus =
     (case i2c_write AIR_ADDR [AIR_STATUS_REG] bus of (rc, bus1) \<Rightarrow>
        if rc \<noteq> 0
        then (Inl (Die ''air: read_status: failed to select status register'' []), bus1)
        else (case i2c_read AIR_ADDR 1 bus1 of ((rc', buf), bus2) \<Rightarrow>
          if rc' \<noteq> 0
          then (Inl (Die ''air: read_status: failed to read air status register'' []), bus2)
          else (Inr (unpack_status (buf ! 0)), bus2)))"

definition air_read_error_id :: "i2c \<Rightarrow> char8 outcome" where
  "air_read_error_id bus =
     (case i2c_write AIR_ADDR [AIR_ERROR_ID_REG] bus of (rc, bus1) \<Rightarrow>
        if rc \<noteq> 0
        then (Inl (Die ''air: read_error_id: failed to select error id register'' []), bus1)
        else (case i2c_read AIR_ADDR 1 bus1 of ((rc', buf), bus2) \<Rightarrow>
          if rc' \<noteq> 0
          then (Inl (Die ''air: read_error_id: failed to read error id'' []), bus2)
          else (Inr (buf ! 0), bus2)))"

text \<open>The \<^verbatim>\<open>switch\<close> of \<^verbatim>\<open>air_die\<close>, which chooses the text for an error ID.\<close>

definition str_air_error_id :: "char8 \<Rightarrow> string" where
  "str_air_error_id air_error_id =
     (if air_error_id = AIR_ERROR_ID_BAD_WRITE
        then ''a write occurred for an invalid register address''
      else if air_error_id = AIR_ERROR_ID_BAD_READ
        then ''a read occurred for an invalid register address''
      else if air_error_id = AIR_ERROR_ID_BAD_MODE
        then ''the measurement drive mode is invalid''
      else if air_error_id = AIR_ERROR_ID_MAX_RESISTANCE
        then ''the resistance is set too high''
      else if air_error_id = AIR_ERROR_ID_HEATER_FAULT
        then ''the heater's current was not in range''
      else if air_error_id = AIR_ERROR_ID_HEATER_SUPPLY
        then ''the heater's voltage is not being applied correctly''
      else ''unknown error!'')"

definition air_die_fmt :: string where
  "air_die_fmt = ''air: error: %s'' @ [CHR 0x0D, CHR 0x0A]"

definition air_die :: "i2c \<Rightarrow> unit outcome" where
  "air_die bus =
     (case air_read_status bus of
        (Inl e, bus1) \<Rightarrow> (Inl e, bus1)
      | (Inr air_status, bus1) \<Rightarrow>
          if error air_status \<noteq> 0
          then (case air_read_error_id bus1 of
                  (Inl e, bus2) \<Rightarrow> (Inl e, bus2)
                | (Inr air_error_id, bus2) \<Rightarrow>
                    (Inl (Die air_die_fmt [Arg_str (str_air_error_id air_error_id)]), bus2))
          else (Inr (), bus1))"

definition air_boot :: "i2c \<Rightarrow> unit outcome" where
  "air_boot bus =
     (case air_read_status bus of
        (Inl e, bus1) \<Rightarrow> (Inl e, bus1)
      | (Inr air_status, bus1) \<Rightarrow>
          if fw_mode air_status = AIR_STATUS_FW_MODE_APP then (Inr (), bus1)
          else if app_valid air_status = 0
          then (Inl (Die ''air: boot: cannot boot, invalid app on device'' []), bus1)
          else (case i2c_write AIR_ADDR [AIR_BOOT_APP_START_REG] bus1 of (rc, bus2) \<Rightarrow>
            if rc \<noteq> 0 then (Inl (Die ''air: boot: failed to boot'' []), bus2)
            else (Inr (), bus2)))"

definition air_read_mode :: "i2c \<Rightarrow> char8 outcome" where
  "air_read_mode bus =
     (case i2c_write AIR_ADDR [AIR_MODE_REG] bus of (rc, bus1) \<Rightarrow>
        if rc \<noteq> 0
        then (Inl (Die ''air: read_mode: failed to set drive mode to constant high freq'' []),
              bus1)
        else (case i2c_read AIR_ADDR 1 bus1 of ((rc', buf), bus2) \<Rightarrow>
          if rc' \<noteq> 0
          then (Inl (Die ''air: read_mode: failed to read mode register'' []), bus2)
          else (Inr (word_of_int
                       (drop_bit 4 (uint (buf ! 0) AND uint AIR_MODE_DRIVE_MODE_MASK))),
                bus2)))"

definition air_write_mode :: "char8 \<Rightarrow> i2c \<Rightarrow> unit outcome" where
  "air_write_mode drive_mode bus =
     (case i2c_write AIR_ADDR [AIR_MODE_REG] bus of (rc, bus1) \<Rightarrow>
        if rc \<noteq> 0
        then (Inl (Die ''air: write_mode: failed to select measurement mode register'' []),
              bus1)
        else (case i2c_read AIR_ADDR 1 bus1 of ((rc', buf), bus2) \<Rightarrow>
          if rc' \<noteq> 0
          then (Inl (Die ''air: write_mode: failed to read measurement mode register'' []),
                bus2)
          else (case i2c_write AIR_ADDR
                       [AIR_MODE_REG, write_measurement_mode (buf ! 0) drive_mode] bus2 of
                  (rc'', bus3) \<Rightarrow>
            if rc'' \<noteq> 0
            then (Inl (Die ''air: write_mode: failed to write mode %d''
                         [Arg_int (uint drive_mode)]), bus3)
            else (Inr (), bus3))))"

definition air_read_alg_result :: "i2c \<Rightarrow> air_alg_result_t outcome" where
  "air_read_alg_result bus =
     (case i2c_write AIR_ADDR [AIR_ALG_RESULT_DATA_REG] bus of (rc, bus1) \<Rightarrow>
        if rc \<noteq> 0
        then (Inl (Die ''air: read_alg_result: failed to select alg result data register'' []),
              bus1)
        else (case i2c_read AIR_ADDR 4 bus1 of ((rc', buf), bus2) \<Rightarrow>
          if rc' \<noteq> 0
          then (Inl (Die ''air: read_alg_result: failed to read alg result data register'' []),
                bus2)
          else (Inr (unpack_alg_result (buf ! 0) (buf ! 1) (buf ! 2) (buf ! 3)), bus2)))"

section \<open>The program\<close>

text \<open>
  \<^verbatim>\<open>main\<close> never returns: after booting the sensor and setting the drive mode it
  polls and reads results in a \<^verbatim>\<open>while (1)\<close>, and it stops only in \<^verbatim>\<open>die\<close>. Both
  loops are modelled with fuel, the number of rounds each of them may still take: the result
  \<open>None\<close> says that the program is still running when the fuel is used up, and the bus
  then holds the transactions of that unfinished run. The console output of \<^verbatim>\<open>printf\<close>
  and the delay \<^verbatim>\<open>wait(0.5)\<close> do not touch the bus and are left out.
\<close>

text \<open>The \<^verbatim>\<open>do ... while (!air_status.data_ready)\<close> of \<^verbatim>\<open>main\<close>.\<close>

fun poll :: "nat \<Rightarrow> i2c \<Rightarrow> (failure + air_status_t) option \<times> i2c" where
  "poll 0 bus = (None, bus)"
| "poll (Suc fuel) bus =
     (case air_read_status bus of
        (Inl e, bus1) \<Rightarrow> (Some (Inl e), bus1)
      | (Inr air_status, bus1) \<Rightarrow>
          (case air_die bus1 of
             (Inl e, bus2) \<Rightarrow> (Some (Inl e), bus2)
           | (Inr u, bus2) \<Rightarrow>
               if data_ready air_status = 0 then poll fuel bus2
               else (Some (Inr air_status), bus2)))"

text \<open>The \<^verbatim>\<open>while (1)\<close> of \<^verbatim>\<open>main\<close>.\<close>

fun main_loop :: "nat \<Rightarrow> i2c \<Rightarrow> failure option \<times> i2c" where
  "main_loop 0 bus = (None, bus)"
| "main_loop (Suc fuel) bus =
     (case air_read_status bus of
        (Inl e, bus1) \<Rightarrow> (Some e, bus1)
      | (Inr air_status, bus1) \<Rightarrow>
          (case poll fuel bus1 of
             (None, bus2) \<Rightarrow> (None, bus2)
           | (Some (Inl e), bus2) \<Rightarrow> (Some e, bus2)
           | (Some (Inr air_status'), bus2) \<Rightarrow>
               (case air_read_alg_result bus2 of
                  (Inl e, bus3) \<Rightarrow> (Some e, bus3)
                | (Inr air_alg_result, bus3) \<Rightarrow> main_loop fuel bus3)))"

definition main :: "nat \<Rightarrow> i2c \<Rightarrow> failure option \<times> i2c" where
  "main fuel bus =
     (case air_boot bus of
        (Inl e, bus1) \<Rightarrow> (Some e, bus1)
      | (Inr u, bus1) \<Rightarrow>
     (case air_die bus1 of
        (Inl e, bus2) \<Rightarrow> (Some e, bus2)
      | (Inr u, bus2) \<Rightarrow>
     (case air_write_mode AIR_MODE_1_SECOND bus2 of
        (Inl e, bus3) \<Rightarrow> (Some e, bus3)
      | (Inr u, bus3) \<Rightarrow>
     (case air_die bus3 of
        (Inl e, bus4) \<Rightarrow> (Some e, bus4)
      | (Inr u, bus4) \<Rightarrow> main_loop fuel bus4))))"

text \<open>The bus when the program starts: nothing has happened on it.\<close>

definition power_on :: "(nat \<Rightarrow> int \<times> (nat \<Rightarrow> char8)) \<Rightarrow> i2c" where
  "power_on dev = \<lparr>device = dev, trace = []\<rparr>"

section \<open>Notions of the specification\<close>

text \<open>
  A transaction writes to the boot-command register when it is a write whose first byte,
  the register address, is \<open>AIR_BOOT_APP_START_REG\<close>.
\<close>

fun boot_write :: "event \<Rightarrow> bool" where
  "boot_write (Wr address [] rc) = False"
| "boot_write (Wr address (reg # payload) rc) = (reg = AIR_BOOT_APP_START_REG)"
| "boot_write (Rd address data rc) = False"

fun bus_write :: "event \<Rightarrow> bool" where
  "bus_write (Wr address data rc) = True"
| "bus_write (Rd address data rc) = False"

text \<open>
  The specification has a type of sensor faults and a decoder for the byte of the error-ID
  register, where the source has only the \<^verbatim>\<open>switch\<close> of \<^verbatim>\<open>air_die\<close>. Both follow
  the words of the specification: the raw bytes 0 to 5 are the enumerated faults, in the
  order in which the specification lists them, and every other byte is \<open>Unknown\<close>.
\<close>

datatype ErrorId =
    BadWrite | BadRead | BadMode | MaxResistance | HeaterFault | HeaterSupply
  | Unknown char8

definition spec_decode_error_id :: "char8 \<Rightarrow> ErrorId" where
  "spec_decode_error_id byte =
     (if byte = 0 then BadWrite
      else if byte = 1 then BadRead
      else if byte = 2 then BadMode
      else if byte = 3 then MaxResistance
      else if byte = 4 then HeaterFault
      else if byte = 5 then HeaterSupply
      else Unknown byte)"

text \<open>
  The text that the source prints for a fault of the specification: the text of the
  \<^verbatim>\<open>case\<close> whose label carries the name of the fault, and the text of \<^verbatim>\<open>default\<close>
  for \<open>Unknown\<close>.
\<close>

fun fault_text :: "ErrorId \<Rightarrow> string" where
  "fault_text BadWrite = ''a write occurred for an invalid register address''"
| "fault_text BadRead = ''a read occurred for an invalid register address''"
| "fault_text BadMode = ''the measurement drive mode is invalid''"
| "fault_text MaxResistance = ''the resistance is set too high''"
| "fault_text HeaterFault = ''the heater's current was not in range''"
| "fault_text HeaterSupply = ''the heater's voltage is not being applied correctly''"
| "fault_text (Unknown byte) = ''unknown error!''"

text \<open>
  The decoding of \<open>app_valid\<close> with the mask of the single bit 4, to compare with the mask
  \<open>AIR_STATUS_APP_VALID_MASK\<close> of the source.
\<close>

definition spec_app_valid :: "char8 \<Rightarrow> char8" where
  "spec_app_valid raw_status = word_of_int (drop_bit 4 (uint raw_status AND 0x10))"

text \<open>
  \<open>quiet bus bus'\<close>: from \<open>bus\<close> to \<open>bus'\<close> the device is the same and the trace has
  grown by transactions none of which writes to the boot-command register.
\<close>

definition quiet :: "i2c \<Rightarrow> i2c \<Rightarrow> bool" where
  "quiet bus bus' \<longleftrightarrow>
     device bus' = device bus \<and>
     (\<exists>evs. trace bus' = trace bus @ evs \<and> \<not> list_ex boot_write evs)"

section \<open>Devices to run the program on\<close>

text \<open>A device that acknowledges every transaction and answers every read with one byte.\<close>

definition steady :: "char8 \<Rightarrow> nat \<Rightarrow> int \<times> (nat \<Rightarrow> char8)" where
  "steady byte n = (0, (\<lambda>i. byte))"

text \<open>
  A device that acknowledges every transaction and answers the reads from a list, one entry
  for each transaction of the run (the entry of a write is not used); a byte that the list
  does not hold is 0.
\<close>

definition scripted :: "char8 list list \<Rightarrow> nat \<Rightarrow> int \<times> (nat \<Rightarrow> char8)" where
  "scripted answers n =
     (0, (\<lambda>i. if n < length answers \<and> i < length (answers ! n) then answers ! n ! i else 0))"

section \<open>Auxiliary facts\<close>

lemmas air_constants =
  AIR_ADDR_def AIR_STATUS_REG_def AIR_STATUS_ERROR_MASK_def AIR_STATUS_DATA_READY_MASK_def
  AIR_STATUS_APP_VALID_MASK_def AIR_STATUS_FW_MODE_MASK_def AIR_STATUS_FW_MODE_BOOT_def
  AIR_STATUS_FW_MODE_APP_def AIR_MODE_REG_def AIR_MODE_DRIVE_MODE_MASK_def AIR_MODE_IDLE_def
  AIR_MODE_1_SECOND_def AIR_ERROR_ID_REG_def AIR_ERROR_ID_BAD_WRITE_def
  AIR_ERROR_ID_BAD_READ_def AIR_ERROR_ID_BAD_MODE_def AIR_ERROR_ID_MAX_RESISTANCE_def
  AIR_ERROR_ID_HEATER_FAULT_def AIR_ERROR_ID_HEATER_SUPPLY_def AIR_ALG_RESULT_DATA_REG_def
  AIR_BOOT_APP_START_REG_def

lemma power_on_simps: "trace (power_on dev) = []" "device (power_on dev) = dev"
  by (simp_all add: power_on_def)

subsection \<open>The bit fields\<close>

lemma status_bit:
  "(word_of_int (drop_bit n (uint b) AND 1) :: char8) = (if bit b n then 1 else 0)"
proof -
  have "drop_bit n (uint b) AND 1 = (if bit (uint b) n then 1 else 0)"
    by (simp add: bit_iff_odd_drop_bit and_one_eq odd_iff_mod_2_eq_one)
  then show ?thesis
    by (auto simp: bit_uint_iff dest: bit_imp_le_length)
qed

lemma fw_mode_bit: "fw_mode (unpack_status b) = (if bit b 7 then 1 else 0)"
  unfolding unpack_status_def AIR_STATUS_FW_MODE_MASK_def
  using status_bit [of 7 b] by simp

lemma app_valid_bit: "app_valid (unpack_status b) = (if bit b 4 then 1 else 0)"
  unfolding unpack_status_def AIR_STATUS_APP_VALID_MASK_def
  using status_bit [of 4 b] by simp

lemma data_ready_bit: "data_ready (unpack_status b) = (if bit b 3 then 1 else 0)"
  unfolding unpack_status_def AIR_STATUS_DATA_READY_MASK_def
  using status_bit [of 3 b] by simp

lemma error_bit: "error (unpack_status b) = (if bit b 0 then 1 else 0)"
  unfolding unpack_status_def AIR_STATUS_ERROR_MASK_def
  using status_bit [of 0 b] by simp

lemma raw_byte: "raw (unpack_status b) = b"
  by (simp add: unpack_status_def)

lemma big_endian_or:
  "push_bit 8 (uint (a::char8)) OR uint (b::char8) = 256 * uint a + uint b"
proof -
  have low: "take_bit 8 (uint b) = uint b"
    by (simp add: take_bit_int_eq_self_iff) (use uint_lt2p [of b] in simp)
  then have "push_bit 8 (uint a) OR uint b = concat_bit 8 (uint b) (uint a)"
    by (simp add: concat_bit_def or.commute)
  then show ?thesis
    by (simp add: concat_bit_eq push_bit_eq_mult low)
qed

lemma big_endian_uint:
  "uint (word_of_int (push_bit 8 (uint (a::char8)) OR uint (b::char8)) :: uint16_t) =
     256 * uint a + uint b"
proof -
  have "uint a < 256" "uint b < 256"
    using uint_lt2p [of a] uint_lt2p [of b] by simp_all
  then have "256 * uint a + uint b < 65536" by simp
  moreover have "0 \<le> 256 * uint a + uint b" by simp
  ultimately have
    "uint (word_of_int (256 * uint a + uint b) :: uint16_t) = 256 * uint a + uint b"
    by (simp only: uint_word_of_int_eq) (simp add: take_bit_int_eq_self)
  then show ?thesis unfolding big_endian_or .
qed

lemma big_endian_cat:
  "(word_of_int (push_bit 8 (uint (a::char8)) OR uint (b::char8)) :: uint16_t) = word_cat a b"
  by (rule bit_word_eqI) (auto simp: bit_simps dest: bit_imp_le_length)

lemma logical_not_mask: "logical_not (uint AIR_MODE_DRIVE_MODE_MASK) = 0"
  by (simp add: logical_not_def AIR_MODE_DRIVE_MODE_MASK_def)

lemma write_measurement_mode_eq: "write_measurement_mode b d = push_bit 4 d"
  unfolding write_measurement_mode_def Let_def logical_not_mask
  by (simp add: push_bit_eq_mult)

lemma written_bits: "bit (push_bit 4 d :: char8) n = (4 \<le> n \<and> n < 8 \<and> bit d (n - 4))"
  by (auto simp: bit_simps dest: bit_imp_le_length)

lemma written_uint: "uint (push_bit 4 d :: char8) = (uint d * 16) mod 256"
  by (simp add: push_bit_eq_mult uint_word_ariths)

lemma above_five: "(5 < x) = (x \<noteq> 0 \<and> x \<noteq> 1 \<and> x \<noteq> 2 \<and> x \<noteq> 3 \<and> x \<noteq> 4 \<and> x \<noteq> 5)"
  for x :: char8
  by unat_arith

lemma str_air_error_id_fault_text:
  "str_air_error_id air_error_id = fault_text (spec_decode_error_id air_error_id)"
  by (simp add: str_air_error_id_def spec_decode_error_id_def air_constants)

lemma str_air_error_id_unknown:
  "(str_air_error_id air_error_id = ''unknown error!'') = (5 < air_error_id)"
  by (simp add: str_air_error_id_def air_constants above_five)

lemma fault_text_distinct:
  "distinct (map fault_text
     [BadWrite, BadRead, BadMode, MaxResistance, HeaterFault, HeaterSupply, Unknown byte])"
  by simp

lemma str_air_error_id_classes:
  "(str_air_error_id a = str_air_error_id b) = (a = b \<or> (5 < a \<and> 5 < b))"
  by (auto simp: str_air_error_id_def air_constants above_five)

subsection \<open>What each operation does on the bus\<close>

lemma air_read_status_unfold:
  "air_read_status bus =
     (if fst (device bus (length (trace bus))) \<noteq> 0
      then (Inl (Die ''air: read_status: failed to select status register'' []),
            bus\<lparr>trace := trace bus @
              [Wr AIR_ADDR [AIR_STATUS_REG] (fst (device bus (length (trace bus))))]\<rparr>)
      else if fst (device bus (Suc (length (trace bus)))) \<noteq> 0
      then (Inl (Die ''air: read_status: failed to read air status register'' []),
            bus\<lparr>trace := trace bus @
              [Wr AIR_ADDR [AIR_STATUS_REG] 0,
               Rd AIR_ADDR [snd (device bus (Suc (length (trace bus)))) 0]
                 (fst (device bus (Suc (length (trace bus)))))]\<rparr>)
      else (Inr (unpack_status (snd (device bus (Suc (length (trace bus)))) 0)),
            bus\<lparr>trace := trace bus @
              [Wr AIR_ADDR [AIR_STATUS_REG] 0,
               Rd AIR_ADDR [snd (device bus (Suc (length (trace bus)))) 0] 0]\<rparr>))"
  by (simp add: air_read_status_def i2c_write_def i2c_read_def Let_def)

lemma air_read_error_id_unfold:
  "air_read_error_id bus =
     (if fst (device bus (length (trace bus))) \<noteq> 0
      then (Inl (Die ''air: read_error_id: failed to select error id register'' []),
            bus\<lparr>trace := trace bus @
              [Wr AIR_ADDR [AIR_ERROR_ID_REG] (fst (device bus (length (trace bus))))]\<rparr>)
      else if fst (device bus (Suc (length (trace bus)))) \<noteq> 0
      then (Inl (Die ''air: read_error_id: failed to read error id'' []),
            bus\<lparr>trace := trace bus @
              [Wr AIR_ADDR [AIR_ERROR_ID_REG] 0,
               Rd AIR_ADDR [snd (device bus (Suc (length (trace bus)))) 0]
                 (fst (device bus (Suc (length (trace bus)))))]\<rparr>)
      else (Inr (snd (device bus (Suc (length (trace bus)))) 0),
            bus\<lparr>trace := trace bus @
              [Wr AIR_ADDR [AIR_ERROR_ID_REG] 0,
               Rd AIR_ADDR [snd (device bus (Suc (length (trace bus)))) 0] 0]\<rparr>))"
  by (simp add: air_read_error_id_def i2c_write_def i2c_read_def Let_def)

lemma air_write_mode_unfold:
  "air_write_mode drive_mode bus =
     (if fst (device bus (length (trace bus))) \<noteq> 0
      then (Inl (Die ''air: write_mode: failed to select measurement mode register'' []),
            bus\<lparr>trace := trace bus @
              [Wr AIR_ADDR [AIR_MODE_REG] (fst (device bus (length (trace bus))))]\<rparr>)
      else if fst (device bus (Suc (length (trace bus)))) \<noteq> 0
      then (Inl (Die ''air: write_mode: failed to read measurement mode register'' []),
            bus\<lparr>trace := trace bus @
              [Wr AIR_ADDR [AIR_MODE_REG] 0,
               Rd AIR_ADDR [snd (device bus (Suc (length (trace bus)))) 0]
                 (fst (device bus (Suc (length (trace bus)))))]\<rparr>)
      else (if fst (device bus (Suc (Suc (length (trace bus))))) \<noteq> 0
            then Inl (Die ''air: write_mode: failed to write mode %d''
                        [Arg_int (uint drive_mode)])
            else Inr (),
            bus\<lparr>trace := trace bus @
              [Wr AIR_ADDR [AIR_MODE_REG] 0,
               Rd AIR_ADDR [snd (device bus (Suc (length (trace bus)))) 0] 0,
               Wr AIR_ADDR
                 [AIR_MODE_REG,
                  write_measurement_mode (snd (device bus (Suc (length (trace bus)))) 0)
                    drive_mode]
                 (fst (device bus (Suc (Suc (length (trace bus))))))]\<rparr>))"
  by (simp add: air_write_mode_def i2c_write_def i2c_read_def Let_def)

lemma air_read_alg_result_unfold:
  "air_read_alg_result bus =
     (if fst (device bus (length (trace bus))) \<noteq> 0
      then (Inl (Die ''air: read_alg_result: failed to select alg result data register'' []),
            bus\<lparr>trace := trace bus @
              [Wr AIR_ADDR [AIR_ALG_RESULT_DATA_REG] (fst (device bus (length (trace bus))))]\<rparr>)
      else (if fst (device bus (Suc (length (trace bus)))) \<noteq> 0
            then Inl (Die ''air: read_alg_result: failed to read alg result data register'' [])
            else Inr (unpack_alg_result
                        (snd (device bus (Suc (length (trace bus)))) 0)
                        (snd (device bus (Suc (length (trace bus)))) 1)
                        (snd (device bus (Suc (length (trace bus)))) 2)
                        (snd (device bus (Suc (length (trace bus)))) 3)),
            bus\<lparr>trace := trace bus @
              [Wr AIR_ADDR [AIR_ALG_RESULT_DATA_REG] 0,
               Rd AIR_ADDR (map (snd (device bus (Suc (length (trace bus))))) [0, 1, 2, 3])
                 (fst (device bus (Suc (length (trace bus)))))]\<rparr>))"
  by (simp add: air_read_alg_result_def i2c_write_def i2c_read_def Let_def upt_rec
      numeral_2_eq_2 numeral_3_eq_3)

lemma air_boot_unfold:
  "air_boot bus =
     (if fst (device bus (length (trace bus))) \<noteq> 0
      then (Inl (Die ''air: read_status: failed to select status register'' []),
            bus\<lparr>trace := trace bus @
              [Wr AIR_ADDR [AIR_STATUS_REG] (fst (device bus (length (trace bus))))]\<rparr>)
      else if fst (device bus (Suc (length (trace bus)))) \<noteq> 0
      then (Inl (Die ''air: read_status: failed to read air status register'' []),
            bus\<lparr>trace := trace bus @
              [Wr AIR_ADDR [AIR_STATUS_REG] 0,
               Rd AIR_ADDR [snd (device bus (Suc (length (trace bus)))) 0]
                 (fst (device bus (Suc (length (trace bus)))))]\<rparr>)
      else if fw_mode (unpack_status (snd (device bus (Suc (length (trace bus)))) 0)) =
                AIR_STATUS_FW_MODE_APP
      then (Inr (),
            bus\<lparr>trace := trace bus @
              [Wr AIR_ADDR [AIR_STATUS_REG] 0,
               Rd AIR_ADDR [snd (device bus (Suc (length (trace bus)))) 0] 0]\<rparr>)
      else if app_valid (unpack_status (snd (device bus (Suc (length (trace bus)))) 0)) = 0
      then (Inl (Die ''air: boot: cannot boot, invalid app on device'' []),
            bus\<lparr>trace := trace bus @
              [Wr AIR_ADDR [AIR_STATUS_REG] 0,
               Rd AIR_ADDR [snd (device bus (Suc (length (trace bus)))) 0] 0]\<rparr>)
      else (if fst (device bus (Suc (Suc (length (trace bus))))) \<noteq> 0
            then Inl (Die ''air: boot: failed to boot'' []) else Inr (),
            bus\<lparr>trace := trace bus @
              [Wr AIR_ADDR [AIR_STATUS_REG] 0,
               Rd AIR_ADDR [snd (device bus (Suc (length (trace bus)))) 0] 0,
               Wr AIR_ADDR [AIR_BOOT_APP_START_REG]
                 (fst (device bus (Suc (Suc (length (trace bus))))))]\<rparr>))"
  by (simp add: air_boot_def air_read_status_unfold i2c_write_def Let_def)

lemma air_read_status_Inr:
  assumes "fst (air_read_status bus) = Inr air_status"
  shows "air_read_status bus =
           (Inr air_status,
            bus\<lparr>trace := trace bus @
              [Wr AIR_ADDR [AIR_STATUS_REG] 0, Rd AIR_ADDR [raw air_status] 0]\<rparr>)"
  using assms
  by (simp add: air_read_status_unfold raw_byte split: if_splits) (auto simp: raw_byte)

lemma air_read_error_id_Inr:
  assumes "fst (air_read_error_id bus) = Inr air_error_id"
  shows "air_read_error_id bus =
           (Inr air_error_id,
            bus\<lparr>trace := trace bus @
              [Wr AIR_ADDR [AIR_ERROR_ID_REG] 0, Rd AIR_ADDR [air_error_id] 0]\<rparr>)"
  using assms
  by (simp add: air_read_error_id_unfold split: if_splits)

subsection \<open>Transactions that leave the boot-command register alone\<close>

lemma quiet_refl: "quiet bus bus"
  by (simp add: quiet_def)

lemma quiet_trans: "quiet a b \<Longrightarrow> quiet b c \<Longrightarrow> quiet a c"
  by (auto simp: quiet_def)

lemma quiet_air_read_status: "quiet bus (snd (air_read_status bus))"
  by (simp add: air_read_status_unfold quiet_def air_constants)

lemma quiet_air_read_error_id: "quiet bus (snd (air_read_error_id bus))"
  by (simp add: air_read_error_id_unfold quiet_def air_constants)

lemma quiet_air_die: "quiet bus (snd (air_die bus))"
proof -
  obtain r bus1 where s: "air_read_status bus = (r, bus1)" by (cases "air_read_status bus")
  obtain r' bus2 where e: "air_read_error_id bus1 = (r', bus2)" by (cases "air_read_error_id bus1")
  have 1: "quiet bus bus1" using quiet_air_read_status [of bus] s by simp
  have 2: "quiet bus1 bus2" using quiet_air_read_error_id [of bus1] e by simp
  have 3: "quiet bus bus2" using 1 2 by (rule quiet_trans)
  show ?thesis
    using 1 3 by (simp add: air_die_def s e split: sum.split)
qed

lemma quiet_air_write_mode: "quiet bus (snd (air_write_mode drive_mode bus))"
  by (simp add: air_write_mode_unfold quiet_def air_constants)

lemma quiet_air_read_alg_result: "quiet bus (snd (air_read_alg_result bus))"
  by (simp add: air_read_alg_result_unfold quiet_def air_constants)

lemma quiet_poll: "quiet bus (snd (poll fuel bus))"
proof (induction fuel arbitrary: bus)
  case 0
  show ?case by (simp add: quiet_refl)
next
  case (Suc fuel)
  obtain r bus1 where s: "air_read_status bus = (r, bus1)" by (cases "air_read_status bus")
  obtain r' bus2 where d: "air_die bus1 = (r', bus2)" by (cases "air_die bus1")
  have 1: "quiet bus bus1" using quiet_air_read_status [of bus] s by simp
  have 2: "quiet bus1 bus2" using quiet_air_die [of bus1] d by simp
  have 12: "quiet bus bus2" using 1 2 by (rule quiet_trans)
  have 3: "quiet bus (snd (poll fuel bus2))" using 12 Suc.IH [of bus2] by (rule quiet_trans)
  show ?case
    using 1 12 3 by (simp add: s d split: sum.split)
qed

lemma quiet_main_loop: "quiet bus (snd (main_loop fuel bus))"
proof (induction fuel arbitrary: bus)
  case 0
  show ?case by (simp add: quiet_refl)
next
  case (Suc fuel)
  obtain r bus1 where s: "air_read_status bus = (r, bus1)" by (cases "air_read_status bus")
  obtain r' bus2 where p: "poll fuel bus1 = (r', bus2)" by (cases "poll fuel bus1")
  obtain r'' bus3 where a: "air_read_alg_result bus2 = (r'', bus3)"
    by (cases "air_read_alg_result bus2")
  have 1: "quiet bus bus1" using quiet_air_read_status [of bus] s by simp
  have 2: "quiet bus1 bus2" using quiet_poll [of bus1 fuel] p by simp
  have 3: "quiet bus2 bus3" using quiet_air_read_alg_result [of bus2] a by simp
  have 12: "quiet bus bus2" using 1 2 by (rule quiet_trans)
  have 13: "quiet bus bus3" using 12 3 by (rule quiet_trans)
  have 14: "quiet bus (snd (main_loop fuel bus3))"
    using 13 Suc.IH [of bus3] by (rule quiet_trans)
  show ?case
    using 1 12 13 14 by (simp add: s p a split: sum.split option.split)
qed

lemma quiet_after_air_boot: "quiet (snd (air_boot bus)) (snd (main fuel bus))"
proof -
  obtain r1 bus1 where b: "air_boot bus = (r1, bus1)" by (cases "air_boot bus")
  obtain r2 bus2 where d: "air_die bus1 = (r2, bus2)" by (cases "air_die bus1")
  obtain r3 bus3 where w: "air_write_mode AIR_MODE_1_SECOND bus2 = (r3, bus3)"
    by (cases "air_write_mode AIR_MODE_1_SECOND bus2")
  obtain r4 bus4 where d': "air_die bus3 = (r4, bus4)" by (cases "air_die bus3")
  have 12: "quiet bus1 bus2" using quiet_air_die [of bus1] d by simp
  have 23: "quiet bus2 bus3" using quiet_air_write_mode [of bus2 AIR_MODE_1_SECOND] w by simp
  have 34: "quiet bus3 bus4" using quiet_air_die [of bus3] d' by simp
  have 13: "quiet bus1 bus3" using 12 23 by (rule quiet_trans)
  have 14: "quiet bus1 bus4" using 13 34 by (rule quiet_trans)
  have 15: "quiet bus1 (snd (main_loop fuel bus4))"
    using 14 quiet_main_loop [of bus4 fuel] by (rule quiet_trans)
  show ?thesis
    using 12 13 14 15 by (simp add: main_def b d w d' quiet_refl split: sum.split)
qed

lemma boot_write_position:
  assumes q: "quiet \<lparr>device = dev, trace = tb\<rparr> bus'"
    and i: "i < length (trace bus')" and w: "boot_write (trace bus' ! i)"
  shows "i < length tb \<and> trace bus' ! i = tb ! i \<and> take (length tb) (trace bus') = tb"
proof -
  from q obtain evs where t: "trace bus' = tb @ evs" and n: "\<not> list_ex boot_write evs"
    by (auto simp: quiet_def)
  have "i < length tb"
  proof (rule ccontr)
    assume "\<not> i < length tb"
    then have "trace bus' ! i = evs ! (i - length tb)" "i - length tb < length evs"
      using i by (simp_all add: t nth_append)
    then have "list_ex boot_write evs" using w by (auto simp: list_ex_iff)
    with n show False ..
  qed
  then show ?thesis by (simp add: t nth_append)
qed

subsection \<open>Runs on concrete devices\<close>

lemma status_0x80:
  "unpack_status 0x80 = \<lparr>fw_mode = 1, app_valid = 0, error = 0, data_ready = 0, raw = 0x80\<rparr>"
  by (simp add: unpack_status_def air_constants)

lemma status_0x00:
  "unpack_status 0x00 = \<lparr>fw_mode = 0, app_valid = 0, error = 0, data_ready = 0, raw = 0x00\<rparr>"
  by (simp add: unpack_status_def air_constants)

lemma status_0x01:
  "unpack_status 0x01 = \<lparr>fw_mode = 0, app_valid = 0, error = 1, data_ready = 0, raw = 0x01\<rparr>"
  by (simp add: unpack_status_def air_constants)

lemma status_0x18:
  "unpack_status 0x18 = \<lparr>fw_mode = 0, app_valid = 1, error = 0, data_ready = 1, raw = 0x18\<rparr>"
  by (simp add: unpack_status_def air_constants)

lemma read_status_steady:
  "air_read_status \<lparr>device = steady byte, trace = t\<rparr> =
     (Inr (unpack_status byte),
      \<lparr>device = steady byte,
       trace = t @ [Wr AIR_ADDR [AIR_STATUS_REG] 0, Rd AIR_ADDR [byte] 0]\<rparr>)"
  by (simp add: air_read_status_unfold steady_def)

lemma main_steady_0x18:
  "trace (snd (main (Suc (Suc 0)) (power_on (steady 0x18)))) =
     [Wr AIR_ADDR [AIR_STATUS_REG] 0, Rd AIR_ADDR [0x18] 0,
      Wr AIR_ADDR [AIR_BOOT_APP_START_REG] 0,
      Wr AIR_ADDR [AIR_STATUS_REG] 0, Rd AIR_ADDR [0x18] 0,
      Wr AIR_ADDR [AIR_MODE_REG] 0, Rd AIR_ADDR [0x18] 0,
      Wr AIR_ADDR [AIR_MODE_REG, 0x10] 0,
      Wr AIR_ADDR [AIR_STATUS_REG] 0, Rd AIR_ADDR [0x18] 0,
      Wr AIR_ADDR [AIR_STATUS_REG] 0, Rd AIR_ADDR [0x18] 0,
      Wr AIR_ADDR [AIR_STATUS_REG] 0, Rd AIR_ADDR [0x18] 0,
      Wr AIR_ADDR [AIR_STATUS_REG] 0, Rd AIR_ADDR [0x18] 0,
      Wr AIR_ADDR [AIR_ALG_RESULT_DATA_REG] 0, Rd AIR_ADDR [0x18, 0x18, 0x18, 0x18] 0,
      Wr AIR_ADDR [AIR_STATUS_REG] 0, Rd AIR_ADDR [0x18] 0]"
proof -
  have wm: "air_write_mode AIR_MODE_1_SECOND \<lparr>device = steady 0x18, trace = t\<rparr> =
     (Inr (), \<lparr>device = steady 0x18, trace = t @
       [Wr AIR_ADDR [AIR_MODE_REG] 0, Rd AIR_ADDR [0x18] 0,
        Wr AIR_ADDR [AIR_MODE_REG, 0x10] 0]\<rparr>)" for t
    by (simp add: air_write_mode_unfold steady_def write_measurement_mode_eq
        AIR_MODE_1_SECOND_def)
  have ar: "fst (air_read_alg_result \<lparr>device = steady 0x18, trace = t\<rparr>) =
       Inr (unpack_alg_result 0x18 0x18 0x18 0x18) \<and>
     snd (air_read_alg_result \<lparr>device = steady 0x18, trace = t\<rparr>) =
       \<lparr>device = steady 0x18, trace = t @
       [Wr AIR_ADDR [AIR_ALG_RESULT_DATA_REG] 0, Rd AIR_ADDR [0x18, 0x18, 0x18, 0x18] 0]\<rparr>" for t
    by (simp add: air_read_alg_result_unfold steady_def)
  have bw: "i2c_write AIR_ADDR [AIR_BOOT_APP_START_REG] \<lparr>device = steady 0x18, trace = t\<rparr> =
     (0, \<lparr>device = steady 0x18, trace = t @ [Wr AIR_ADDR [AIR_BOOT_APP_START_REG] 0]\<rparr>)" for t
    by (simp add: i2c_write_def steady_def)
  have ad: "air_die \<lparr>device = steady 0x18, trace = t\<rparr> =
     (Inr (), \<lparr>device = steady 0x18, trace = t @
        [Wr AIR_ADDR [AIR_STATUS_REG] 0, Rd AIR_ADDR [0x18] 0]\<rparr>)" for t
    by (simp add: air_die_def read_status_steady status_0x18)
  have ab: "air_boot (power_on (steady 0x18)) =
     (Inr (), \<lparr>device = steady 0x18, trace =
        [Wr AIR_ADDR [AIR_STATUS_REG] 0, Rd AIR_ADDR [0x18] 0,
         Wr AIR_ADDR [AIR_BOOT_APP_START_REG] 0]\<rparr>)"
    by (simp add: air_boot_def power_on_def read_status_steady status_0x18 bw
        AIR_STATUS_FW_MODE_APP_def)
  show ?thesis
    by (simp add: main_def ab ad wm ar read_status_steady status_0x18 prod_eq_iff
        split: prod.split sum.split)
qed

section \<open>The register codec\<close>

text \<open>
  Claim C1, as the specification states it: the byte that a mode write sends keeps every
  bit of the byte read from the mode register outside the bit positions 4 to 6. The source
  does not keep them. With the byte \<open>0x08\<close> in the mode register and the drive mode
  \<open>AIR_MODE_1_SECOND\<close>, the one that \<^verbatim>\<open>main\<close> requests, \<^verbatim>\<open>air_write_mode\<close> sends
  the byte \<open>0x10\<close>: bit 3 of the register is lost.
\<close>

theorem write_measurement_mode_loses_other_bits:
  "write_measurement_mode 0x08 AIR_MODE_1_SECOND = 0x10 \<and>
   write_measurement_mode 0x08 AIR_MODE_1_SECOND AND NOT 0x70 \<noteq> 0x08 AND NOT 0x70 \<and>
   air_write_mode AIR_MODE_1_SECOND (power_on (steady 0x08)) =
     (Inr (),
      \<lparr>device = steady 0x08,
       trace = [Wr AIR_ADDR [AIR_MODE_REG] 0, Rd AIR_ADDR [0x08] 0,
                Wr AIR_ADDR [AIR_MODE_REG, 0x10] 0]\<rparr>)"
  by (simp add: write_measurement_mode_eq AIR_MODE_1_SECOND_def air_write_mode_unfold
      power_on_def steady_def)

text \<open>
  Claim C2: for every four bytes read from the result register, \<open>eco2\<close> is the big-endian
  16-bit number made of bytes 0 and 1 and \<open>tvoc\<close> the one made of bytes 2 and 3; the
  bytes \<open>0x01, 0x90, 0x00, 0x64\<close> give \<open>eco2 = 400\<close> and \<open>tvoc = 100\<close>.
\<close>

theorem unpack_alg_result_big_endian:
  "eco2 (unpack_alg_result b0 b1 b2 b3) = word_cat b0 b1 \<and>
   tvoc (unpack_alg_result b0 b1 b2 b3) = word_cat b2 b3 \<and>
   uint (eco2 (unpack_alg_result b0 b1 b2 b3)) = 256 * uint b0 + uint b1 \<and>
   uint (tvoc (unpack_alg_result b0 b1 b2 b3)) = 256 * uint b2 + uint b3 \<and>
   unpack_alg_result 0x01 0x90 0x00 0x64 = \<lparr>eco2 = 400, tvoc = 100\<rparr>"
proof -
  have "unpack_alg_result 0x01 0x90 0x00 0x64 = \<lparr>eco2 = 400, tvoc = 100\<rparr>"
    by (simp add: unpack_alg_result_def)
  moreover have "eco2 (unpack_alg_result b0 b1 b2 b3) = word_cat b0 b1"
    by (simp add: unpack_alg_result_def big_endian_cat)
  moreover have "tvoc (unpack_alg_result b0 b1 b2 b3) = word_cat b2 b3"
    by (simp add: unpack_alg_result_def big_endian_cat)
  moreover have "uint (eco2 (unpack_alg_result b0 b1 b2 b3)) = 256 * uint b0 + uint b1"
    unfolding unpack_alg_result_def by (simp only: air_alg_result_t.simps big_endian_uint)
  moreover have "uint (tvoc (unpack_alg_result b0 b1 b2 b3)) = 256 * uint b2 + uint b3"
    unfolding unpack_alg_result_def by (simp only: air_alg_result_t.simps big_endian_uint)
  ultimately show ?thesis by (simp only: simp_thms)
qed

text \<open>
  Claim C4: for every byte read from the status register, the decoded status has the
  firmware mode of bit 7, \<open>app_valid\<close> of bit 4 alone, \<open>data_ready\<close> of bit 3 and the
  error flag of bit 0, and it keeps the raw byte.
\<close>

theorem unpack_status_fields:
  "fw_mode (unpack_status raw_status) =
     (if bit raw_status 7 then AIR_STATUS_FW_MODE_APP else AIR_STATUS_FW_MODE_BOOT) \<and>
   app_valid (unpack_status raw_status) = (if bit raw_status 4 then 1 else 0) \<and>
   data_ready (unpack_status raw_status) = (if bit raw_status 3 then 1 else 0) \<and>
   error (unpack_status raw_status) = (if bit raw_status 0 then 1 else 0) \<and>
   raw (unpack_status raw_status) = raw_status"
  by (simp only: fw_mode_bit app_valid_bit data_ready_bit error_bit raw_byte
      AIR_STATUS_FW_MODE_APP_def AIR_STATUS_FW_MODE_BOOT_def simp_thms)

text \<open>
  Claim C6, as the specification states it, fails in its last part: the specification's
  decoder keeps the raw byte of an unknown error ID, so that \<open>0x06\<close> and \<open>0xFF\<close> decode
  to different values, while the \<^verbatim>\<open>switch\<close> of \<^verbatim>\<open>air_die\<close> sends both to the one
  \<^verbatim>\<open>default\<close> case: the text it chooses, and the whole failure of \<^verbatim>\<open>air_die\<close>, are
  the same for the two bytes, and the raw byte is not in them.
\<close>

theorem str_air_error_id_drops_raw_byte:
  "(0x06 :: char8) \<noteq> 0xFF \<and>
   str_air_error_id 0x06 = str_air_error_id 0xFF \<and>
   spec_decode_error_id 0x06 = Unknown 0x06 \<and>
   spec_decode_error_id 0xFF = Unknown 0xFF \<and>
   spec_decode_error_id 0x06 \<noteq> spec_decode_error_id 0xFF \<and>
   fst (air_die (power_on (scripted [[], [0x01], [], [0x06]]))) =
     fst (air_die (power_on (scripted [[], [0x01], [], [0xFF]])))"
  by (simp add: str_air_error_id_def spec_decode_error_id_def air_constants
      air_die_def air_read_status_unfold air_read_error_id_unfold scripted_def power_on_def
      status_0x01)

text \<open>
  Claim C6, amended: the \<^verbatim>\<open>switch\<close> of \<^verbatim>\<open>air_die\<close> maps the bytes 0 to 5 to the faults
  \<open>BadWrite\<close>, \<open>BadRead\<close>, \<open>BadMode\<close>, \<open>MaxResistance\<close>, \<open>HeaterFault\<close> and
  \<open>HeaterSupply\<close> in this order, each with a text of its own, and maps every other byte
  to one and the same unknown fault, which does not carry the raw byte: two bytes get the
  same text exactly when they are equal or both above 5. In particular \<open>0x03\<close> is
  \<open>MaxResistance\<close> and \<open>0xFF\<close> is the unknown fault.
\<close>

theorem str_air_error_id_decodes:
  "(str_air_error_id a = str_air_error_id b) = (a = b \<or> (5 < a \<and> 5 < b)) \<and>
   str_air_error_id a = fault_text (spec_decode_error_id a) \<and>
   (str_air_error_id a = ''unknown error!'') = (5 < a) \<and>
   fault_text (Unknown a) = fault_text (Unknown b) \<and>
   distinct (map fault_text
     [BadWrite, BadRead, BadMode, MaxResistance, HeaterFault, HeaterSupply, Unknown a]) \<and>
   str_air_error_id 0 = fault_text BadWrite \<and>
   str_air_error_id 1 = fault_text BadRead \<and>
   str_air_error_id 2 = fault_text BadMode \<and>
   str_air_error_id 3 = fault_text MaxResistance \<and>
   str_air_error_id 4 = fault_text HeaterFault \<and>
   str_air_error_id 5 = fault_text HeaterSupply \<and>
   str_air_error_id 0xFF = fault_text (Unknown 0xFF)"
proof -
  have "str_air_error_id 0 = fault_text BadWrite"
    "str_air_error_id 1 = fault_text BadRead"
    "str_air_error_id 2 = fault_text BadMode"
    "str_air_error_id 3 = fault_text MaxResistance"
    "str_air_error_id 4 = fault_text HeaterFault"
    "str_air_error_id 5 = fault_text HeaterSupply"
    "str_air_error_id 0xFF = fault_text (Unknown 0xFF)"
    by (simp_all add: str_air_error_id_def air_constants)
  moreover have "fault_text (Unknown a) = fault_text (Unknown b)" by simp
  ultimately show ?thesis
    using str_air_error_id_classes [of a b] str_air_error_id_fault_text [of a]
      str_air_error_id_unknown [of a] fault_text_distinct [of a]
    by (simp only: simp_thms)
qed

text \<open>
  Claim C10: for every status byte, decoding \<open>app_valid\<close> with the mask \<open>0x16\<close> of the
  source gives the same value as decoding it with the mask \<open>0x10\<close> of bit 4, already
  before the result is stored in a \<^verbatim>\<open>char\<close>; and each of the four decoded fields is 0
  or 1.
\<close>

theorem app_valid_mask_single_bit:
  "drop_bit 4 (uint raw_status AND uint AIR_STATUS_APP_VALID_MASK) =
     drop_bit 4 (uint raw_status AND 0x10) \<and>
   app_valid (unpack_status raw_status) = spec_app_valid raw_status \<and>
   fw_mode (unpack_status raw_status) \<in> {0, 1} \<and>
   app_valid (unpack_status raw_status) \<in> {0, 1} \<and>
   data_ready (unpack_status raw_status) \<in> {0, 1} \<and>
   error (unpack_status raw_status) \<in> {0, 1}"
proof -
  have "drop_bit 4 (uint raw_status AND uint AIR_STATUS_APP_VALID_MASK) =
     drop_bit 4 (uint raw_status AND 0x10)"
    by (simp add: AIR_STATUS_APP_VALID_MASK_def)
  moreover have "app_valid (unpack_status raw_status) = spec_app_valid raw_status"
    by (simp add: unpack_status_def spec_app_valid_def AIR_STATUS_APP_VALID_MASK_def)
  moreover have "fw_mode (unpack_status raw_status) \<in> {0, 1}"
    by (simp add: fw_mode_bit)
  moreover have "app_valid (unpack_status raw_status) \<in> {0, 1}"
    by (simp add: app_valid_bit)
  moreover have "data_ready (unpack_status raw_status) \<in> {0, 1}"
    by (simp add: data_ready_bit)
  moreover have "error (unpack_status raw_status) \<in> {0, 1}"
    by (simp add: error_bit)
  ultimately show ?thesis by (simp only: simp_thms)
qed

section \<open>The operations of the session\<close>

text \<open>
  Claim C9: whatever byte the mode register holds and whatever drive mode is requested,
  the byte that \<^verbatim>\<open>air_write_mode\<close> sends to the mode register is the drive mode shifted
  left by four bits, cut to a byte: the expression \<^verbatim>\<open>!AIR_MODE_DRIVE_MODE_MASK\<close> is 0, so
  no bit of the byte read from the register reaches the byte sent. Bit \<open>n\<close> of the byte
  sent is bit \<open>n - 4\<close> of the drive mode for \<open>4 \<le> n\<close>, and 0 below.
\<close>

theorem air_write_mode_sends_shifted_drive_mode:
  "fst (device bus (length (trace bus))) = 0 \<Longrightarrow>
   fst (device bus (Suc (length (trace bus)))) = 0 \<Longrightarrow>
   snd (device bus (Suc (length (trace bus)))) 0 = measurement_mode \<Longrightarrow>
     logical_not (uint AIR_MODE_DRIVE_MODE_MASK) = 0 \<and>
     write_measurement_mode measurement_mode drive_mode = push_bit 4 drive_mode \<and>
     uint (write_measurement_mode measurement_mode drive_mode) =
       (uint drive_mode * 16) mod 256 \<and>
     (\<forall>n. bit (write_measurement_mode measurement_mode drive_mode) n =
        (4 \<le> n \<and> n < 8 \<and> bit drive_mode (n - 4))) \<and>
     trace (snd (air_write_mode drive_mode bus)) =
       trace bus @
         [Wr AIR_ADDR [AIR_MODE_REG] 0, Rd AIR_ADDR [measurement_mode] 0,
          Wr AIR_ADDR [AIR_MODE_REG, push_bit 4 drive_mode]
            (fst (device bus (Suc (Suc (length (trace bus))))))]"
  by (simp add: air_write_mode_unfold write_measurement_mode_eq logical_not_mask written_bits
      written_uint)

theorem air_write_mode_sends_shifted_drive_mode_witness:
  "fst (device (power_on (steady 0x08)) (length (trace (power_on (steady 0x08))))) = 0 \<and>
   fst (device (power_on (steady 0x08)) (Suc (length (trace (power_on (steady 0x08)))))) = 0 \<and>
   snd (device (power_on (steady 0x08)) (Suc (length (trace (power_on (steady 0x08)))))) 0 =
     0x08 \<and>
   trace (snd (air_write_mode AIR_MODE_1_SECOND (power_on (steady 0x08)))) =
     [Wr AIR_ADDR [AIR_MODE_REG] 0, Rd AIR_ADDR [0x08] 0,
      Wr AIR_ADDR [AIR_MODE_REG, 0x10] 0]"
proof -
  have h1: "fst (device (power_on (steady 0x08)) (length (trace (power_on (steady 0x08))))) = 0"
    and h2: "fst (device (power_on (steady 0x08))
                (Suc (length (trace (power_on (steady 0x08)))))) = 0"
    and h3: "snd (device (power_on (steady 0x08))
                (Suc (length (trace (power_on (steady 0x08)))))) 0 = 0x08"
    by (simp_all add: power_on_def steady_def)
  from air_write_mode_sends_shifted_drive_mode [OF h1 h2 h3, of AIR_MODE_1_SECOND] h1 h2 h3
  show ?thesis
    by (simp add: power_on_def steady_def AIR_MODE_1_SECOND_def)
qed

text \<open>
  Claim C3, as the specification states it, fails: a status whose \<open>app_valid\<close> is false and
  whose firmware mode is Application makes \<^verbatim>\<open>air_boot\<close> return normally, since the
  firmware mode is tested first. The status byte \<open>0x80\<close> is such a status.
\<close>

theorem air_boot_app_mode_invalid_app_succeeds:
  "fst (air_read_status (power_on (steady 0x80))) = Inr (unpack_status 0x80) \<and>
   app_valid (unpack_status 0x80) = 0 \<and>
   fw_mode (unpack_status 0x80) = AIR_STATUS_FW_MODE_APP \<and>
   fst (air_boot (power_on (steady 0x80))) = Inr () \<and>
   fst (air_boot (power_on (steady 0x80))) \<noteq>
     Inl (Die ''air: boot: cannot boot, invalid app on device'' [])"
  by (simp add: power_on_def read_status_steady air_boot_def status_0x80
      AIR_STATUS_FW_MODE_APP_def)

text \<open>
  Claim C3, amended: for every status read at the start of \<^verbatim>\<open>air_boot\<close> in which
  \<open>app_valid\<close> is false, \<^verbatim>\<open>air_boot\<close> performs no write to the boot-command register,
  and leaves the bus as the status read left it; it stops in \<^verbatim>\<open>die\<close> with the message of
  an invalid application when the firmware mode of that status is not Application, and
  returns normally when it is Application.
\<close>

theorem air_boot_invalid_app:
  "fst (air_read_status bus) = Inr air_status \<Longrightarrow> app_valid air_status = 0 \<Longrightarrow>
     snd (air_boot bus) = snd (air_read_status bus) \<and>
     trace (snd (air_boot bus)) =
       trace bus @ [Wr AIR_ADDR [AIR_STATUS_REG] 0, Rd AIR_ADDR [raw air_status] 0] \<and>
     \<not> list_ex boot_write (drop (length (trace bus)) (trace (snd (air_boot bus)))) \<and>
     (fw_mode air_status \<noteq> AIR_STATUS_FW_MODE_APP \<longrightarrow>
        fst (air_boot bus) = Inl (Die ''air: boot: cannot boot, invalid app on device'' [])) \<and>
     (fw_mode air_status = AIR_STATUS_FW_MODE_APP \<longrightarrow> fst (air_boot bus) = Inr ())"
  by (simp add: air_boot_def air_read_status_Inr air_constants)

theorem air_boot_invalid_app_witness:
  "fst (air_read_status (power_on (steady 0x00))) = Inr (unpack_status 0x00) \<and>
   app_valid (unpack_status 0x00) = 0 \<and>
   fw_mode (unpack_status 0x00) \<noteq> AIR_STATUS_FW_MODE_APP \<and>
   air_boot (power_on (steady 0x00)) =
     (Inl (Die ''air: boot: cannot boot, invalid app on device'' []),
      \<lparr>device = steady 0x00,
       trace = [Wr AIR_ADDR [AIR_STATUS_REG] 0, Rd AIR_ADDR [0x00] 0]\<rparr>) \<and>
   fst (air_read_status (power_on (steady 0x80))) = Inr (unpack_status 0x80) \<and>
   app_valid (unpack_status 0x80) = 0 \<and>
   fw_mode (unpack_status 0x80) = AIR_STATUS_FW_MODE_APP \<and>
   air_boot (power_on (steady 0x80)) =
     (Inr (),
      \<lparr>device = steady 0x80,
       trace = [Wr AIR_ADDR [AIR_STATUS_REG] 0, Rd AIR_ADDR [0x80] 0]\<rparr>)"
proof -
  have r0: "fst (air_read_status (power_on (steady 0x00))) = Inr (unpack_status 0x00)"
    and r1: "fst (air_read_status (power_on (steady 0x80))) = Inr (unpack_status 0x80)"
    by (simp_all add: power_on_def read_status_steady)
  have a0: "app_valid (unpack_status 0x00) = 0" and a1: "app_valid (unpack_status 0x80) = 0"
    by (simp_all add: status_0x00 status_0x80)
  have f0: "fw_mode (unpack_status 0x00) \<noteq> AIR_STATUS_FW_MODE_APP"
    and f1: "fw_mode (unpack_status 0x80) = AIR_STATUS_FW_MODE_APP"
    by (simp_all add: status_0x00 status_0x80 AIR_STATUS_FW_MODE_APP_def)
  have s0: "snd (air_read_status (power_on (steady 0x00))) =
      \<lparr>device = steady 0x00, trace = [Wr AIR_ADDR [AIR_STATUS_REG] 0, Rd AIR_ADDR [0x00] 0]\<rparr>"
    and s1: "snd (air_read_status (power_on (steady 0x80))) =
      \<lparr>device = steady 0x80, trace = [Wr AIR_ADDR [AIR_STATUS_REG] 0, Rd AIR_ADDR [0x80] 0]\<rparr>"
    by (simp_all add: power_on_def read_status_steady)
  from air_boot_invalid_app [OF r0 a0] air_boot_invalid_app [OF r1 a1] r0 r1 a0 a1 f0 f1 s0 s1
  show ?thesis
    by (simp add: prod_eq_iff)
qed

text \<open>
  Claim C5: \<^verbatim>\<open>air_boot\<close> is idempotent. Whenever the status read at its start reports the
  firmware mode Application, \<^verbatim>\<open>air_boot\<close> returns normally and performs no bus write,
  indeed no transaction at all, once that status has been read: the bus is exactly as the
  status read left it, and nothing is written to the boot-command register.
\<close>

theorem air_boot_already_booted:
  "fst (air_read_status bus) = Inr air_status \<Longrightarrow>
   fw_mode air_status = AIR_STATUS_FW_MODE_APP \<Longrightarrow>
     air_boot bus = (Inr (), snd (air_read_status bus)) \<and>
     filter bus_write
       (drop (length (trace (snd (air_read_status bus)))) (trace (snd (air_boot bus)))) = [] \<and>
     drop (length (trace (snd (air_read_status bus)))) (trace (snd (air_boot bus))) = [] \<and>
     \<not> list_ex boot_write (drop (length (trace bus)) (trace (snd (air_boot bus)))) \<and>
     trace (snd (air_boot bus)) =
       trace bus @ [Wr AIR_ADDR [AIR_STATUS_REG] 0, Rd AIR_ADDR [raw air_status] 0]"
  by (simp add: air_boot_def air_read_status_Inr air_constants)

theorem air_boot_already_booted_witness:
  "fst (air_read_status (power_on (steady 0x90))) = Inr (unpack_status 0x90) \<and>
   fw_mode (unpack_status 0x90) = AIR_STATUS_FW_MODE_APP \<and>
   air_boot (power_on (steady 0x90)) =
     (Inr (),
      \<lparr>device = steady 0x90,
       trace = [Wr AIR_ADDR [AIR_STATUS_REG] 0, Rd AIR_ADDR [0x90] 0]\<rparr>) \<and>
   filter bus_write
     (drop (length (trace (snd (air_read_status (power_on (steady 0x90))))))
        (trace (snd (air_boot (power_on (steady 0x90)))))) = []"
proof -
  have r: "fst (air_read_status (power_on (steady 0x90))) = Inr (unpack_status 0x90)"
    by (simp add: power_on_def read_status_steady)
  have f: "fw_mode (unpack_status 0x90) = AIR_STATUS_FW_MODE_APP"
    by (simp add: unpack_status_def air_constants)
  have s: "snd (air_read_status (power_on (steady 0x90))) =
      \<lparr>device = steady 0x90, trace = [Wr AIR_ADDR [AIR_STATUS_REG] 0, Rd AIR_ADDR [0x90] 0]\<rparr>"
    by (simp add: power_on_def read_status_steady)
  from air_boot_already_booted [OF r f] r f s show ?thesis
    by simp
qed

text \<open>
  Claim C7: \<^verbatim>\<open>air_die\<close> reads the status register. When the error flag of the decoded
  status is not set, it returns normally and the bus is as the status read left it: no
  further transaction. When the flag is set, it reads the error-ID register and stops in
  \<^verbatim>\<open>die\<close> with the text that the \<^verbatim>\<open>switch\<close> fixes for that error ID.
\<close>

theorem air_die_checks_for_fault:
  "fst (air_read_status bus) = Inr air_status \<Longrightarrow>
     (error air_status = 0 \<longrightarrow>
        air_die bus = (Inr (), snd (air_read_status bus)) \<and>
        trace (snd (air_die bus)) =
          trace bus @ [Wr AIR_ADDR [AIR_STATUS_REG] 0, Rd AIR_ADDR [raw air_status] 0]) \<and>
     (error air_status \<noteq> 0 \<longrightarrow>
        fst (air_read_error_id (snd (air_read_status bus))) = Inr air_error_id \<longrightarrow>
        fst (air_die bus) = Inl (Die air_die_fmt [Arg_str (str_air_error_id air_error_id)]) \<and>
        trace (snd (air_die bus)) =
          trace bus @ [Wr AIR_ADDR [AIR_STATUS_REG] 0, Rd AIR_ADDR [raw air_status] 0,
                       Wr AIR_ADDR [AIR_ERROR_ID_REG] 0, Rd AIR_ADDR [air_error_id] 0])"
proof (intro conjI impI)
  assume s: "fst (air_read_status bus) = Inr air_status"
  note rs = air_read_status_Inr [OF s]
  {
    assume "error air_status = 0"
    then show "air_die bus = (Inr (), snd (air_read_status bus))"
      by (simp add: air_die_def rs)
    from \<open>error air_status = 0\<close> show "trace (snd (air_die bus)) =
          trace bus @ [Wr AIR_ADDR [AIR_STATUS_REG] 0, Rd AIR_ADDR [raw air_status] 0]"
      by (simp add: air_die_def rs)
  }
  {
    assume e: "error air_status \<noteq> 0"
      and i: "fst (air_read_error_id (snd (air_read_status bus))) = Inr air_error_id"
    note ri = air_read_error_id_Inr [OF i]
    from e show "fst (air_die bus) =
        Inl (Die air_die_fmt [Arg_str (str_air_error_id air_error_id)])"
      using ri by (simp add: air_die_def rs)
    from e show "trace (snd (air_die bus)) =
          trace bus @ [Wr AIR_ADDR [AIR_STATUS_REG] 0, Rd AIR_ADDR [raw air_status] 0,
                       Wr AIR_ADDR [AIR_ERROR_ID_REG] 0, Rd AIR_ADDR [air_error_id] 0]"
      using ri by (simp add: air_die_def rs)
  }
qed

theorem air_die_checks_for_fault_witness:
  "fst (air_read_status (power_on (steady 0x00))) = Inr (unpack_status 0x00) \<and>
   error (unpack_status 0x00) = 0 \<and>
   air_die (power_on (steady 0x00)) =
     (Inr (),
      \<lparr>device = steady 0x00,
       trace = [Wr AIR_ADDR [AIR_STATUS_REG] 0, Rd AIR_ADDR [0x00] 0]\<rparr>) \<and>
   fst (air_read_status (power_on (scripted [[], [0x01], [], [0x04]]))) =
     Inr (unpack_status 0x01) \<and>
   error (unpack_status 0x01) \<noteq> 0 \<and>
   fst (air_read_error_id (snd (air_read_status (power_on (scripted [[], [0x01], [], [0x04]]))))) =
     Inr 0x04 \<and>
   fst (air_die (power_on (scripted [[], [0x01], [], [0x04]]))) =
     Inl (Die air_die_fmt [Arg_str ''the heater's current was not in range'']) \<and>
   trace (snd (air_die (power_on (scripted [[], [0x01], [], [0x04]])))) =
     [Wr AIR_ADDR [AIR_STATUS_REG] 0, Rd AIR_ADDR [0x01] 0,
      Wr AIR_ADDR [AIR_ERROR_ID_REG] 0, Rd AIR_ADDR [0x04] 0]"
proof -
  have r0: "fst (air_read_status (power_on (steady 0x00))) = Inr (unpack_status 0x00)"
    by (simp add: power_on_def read_status_steady)
  have e0: "error (unpack_status 0x00) = 0"
    by (simp add: status_0x00)
  have s0: "snd (air_read_status (power_on (steady 0x00))) =
      \<lparr>device = steady 0x00, trace = [Wr AIR_ADDR [AIR_STATUS_REG] 0, Rd AIR_ADDR [0x00] 0]\<rparr>"
    by (simp add: power_on_def read_status_steady)
  have r1: "fst (air_read_status (power_on (scripted [[], [0x01], [], [0x04]]))) =
      Inr (unpack_status 0x01)"
    by (simp add: power_on_def air_read_status_unfold scripted_def)
  have e1: "error (unpack_status 0x01) \<noteq> 0"
    by (simp add: status_0x01)
  have i1: "fst (air_read_error_id
        (snd (air_read_status (power_on (scripted [[], [0x01], [], [0x04]]))))) = Inr 0x04"
    by (simp add: power_on_def air_read_status_unfold air_read_error_id_unfold scripted_def)
  have t: "str_air_error_id 0x04 = ''the heater's current was not in range''"
    by (simp add: str_air_error_id_def air_constants)
  from air_die_checks_for_fault [where air_error_id = 0, OF r0]
    air_die_checks_for_fault [where air_error_id = "0x04", OF r1]
    r0 e0 s0 r1 e1 i1 t
  show ?thesis
    by (simp add: status_0x00 status_0x01 power_on_simps)
qed

section \<open>The whole program\<close>

text \<open>
  Claim C8: in every run of \<^verbatim>\<open>main\<close>, against every device and however long the run
  is followed, a write to the boot-command register can only be the third transaction of the
  run. The two transactions before it are the successful status read of \<^verbatim>\<open>air_boot\<close>,
  nothing lies between that read and the write, and the status decoded from the byte read
  has \<open>app_valid\<close> true and a firmware mode other than Application.
\<close>

theorem boot_command_guarded:
  assumes "i < length (trace (snd (main fuel (power_on dev))))"
    and "boot_write (trace (snd (main fuel (power_on dev))) ! i)"
  shows "i = 2 \<and>
     take 3 (trace (snd (main fuel (power_on dev)))) =
       [Wr AIR_ADDR [AIR_STATUS_REG] 0, Rd AIR_ADDR [snd (dev 1) 0] 0,
        Wr AIR_ADDR [AIR_BOOT_APP_START_REG] (fst (dev 2))] \<and>
     app_valid (unpack_status (snd (dev 1) 0)) \<noteq> 0 \<and>
     fw_mode (unpack_status (snd (dev 1) 0)) \<noteq> AIR_STATUS_FW_MODE_APP"
proof -
  define tb where "tb = trace (snd (air_boot (power_on dev)))"
  define t where "t = trace (snd (main fuel (power_on dev)))"
  have dv: "device (snd (air_boot (power_on dev))) = dev"
    by (simp add: air_boot_unfold power_on_def)
  then have sb: "snd (air_boot (power_on dev)) = \<lparr>device = dev, trace = tb\<rparr>"
    by (simp add: tb_def)
  have q: "quiet \<lparr>device = dev, trace = tb\<rparr> (snd (main fuel (power_on dev)))"
    using quiet_after_air_boot [of "power_on dev" fuel] by (simp add: sb)
  from boot_write_position [OF q assms]
  have i: "i < length tb" and w: "boot_write (tb ! i)" and tk: "take (length tb) t = tb"
    using assms(2) by (simp_all add: t_def)
  have r: "AIR_STATUS_REG \<noteq> AIR_BOOT_APP_START_REG" by (simp add: air_constants)
  have two: "dev 2 = dev (Suc (Suc 0))" "(i = 2) = (i = Suc (Suc 0))" by (simp_all add: numeral_2_eq_2)
  have cases: "tb = [Wr AIR_ADDR [AIR_STATUS_REG] 0, Rd AIR_ADDR [snd (dev 1) 0] 0,
        Wr AIR_ADDR [AIR_BOOT_APP_START_REG] (fst (dev 2))] \<and>
     app_valid (unpack_status (snd (dev 1) 0)) \<noteq> 0 \<and>
     fw_mode (unpack_status (snd (dev 1) 0)) \<noteq> AIR_STATUS_FW_MODE_APP \<and> i = 2"
    using i w r unfolding tb_def two
    by (auto simp: air_boot_unfold power_on_def less_Suc_eq nth_Cons' split: if_splits)
  then have len: "length tb = 3" by simp
  have "take 3 t = tb" using tk unfolding len .
  with cases show ?thesis unfolding t_def [symmetric] by metis
qed

theorem boot_command_guarded_witness:
  "2 < length (trace (snd (main (Suc (Suc 0)) (power_on (steady 0x18))))) \<and>
   boot_write (trace (snd (main (Suc (Suc 0)) (power_on (steady 0x18)))) ! 2) \<and>
   take 3 (trace (snd (main (Suc (Suc 0)) (power_on (steady 0x18))))) =
     [Wr AIR_ADDR [AIR_STATUS_REG] 0, Rd AIR_ADDR [0x18] 0,
      Wr AIR_ADDR [AIR_BOOT_APP_START_REG] 0] \<and>
   app_valid (unpack_status 0x18) \<noteq> 0 \<and>
   fw_mode (unpack_status 0x18) \<noteq> AIR_STATUS_FW_MODE_APP"
proof -
  have h1: "2 < length (trace (snd (main (Suc (Suc 0)) (power_on (steady 0x18)))))"
    by (simp add: main_steady_0x18)
  have h2: "boot_write (trace (snd (main (Suc (Suc 0)) (power_on (steady 0x18)))) ! 2)"
    by (simp add: main_steady_0x18)
  from boot_command_guarded [OF h1 h2] h1 h2 show ?thesis
    by (simp add: steady_def)
qed

end
